theory Spec2Isabelle
  imports Main "HOL-Library.Word"
begin

section \<open>JavaScript strings and values\<close>

text \<open>
  A JavaScript string is a sequence of UTF-16 code units. String literals of the source
  that are plain ASCII are written \<open>js ''...''\<close>; the emoji literals are given by their
  code units.
\<close>

type_synonym code_unit = "16 word"
type_synonym jsstring = "code_unit list"

definition js :: "string \<Rightarrow> jsstring" where
  "js cs = map (\<lambda>c. of_char c) cs"

text \<open>
  \<open>String.prototype.trim\<close> strips the ECMAScript WhiteSpace and LineTerminator code points
  from both ends: TAB, LF, VT, FF, CR, SPACE, NBSP, the Unicode space separators
  (U+1680, U+2000 .. U+200A, U+202F, U+205F, U+3000), LS, PS and the byte order mark.
  All of them are single code units.
\<close>

definition isWhiteSpace :: "code_unit \<Rightarrow> bool" where
  "isWhiteSpace c = (c \<in> set [0x0009, 0x000A, 0x000B, 0x000C, 0x000D, 0x0020, 0x00A0, 0x1680,
      0x2000, 0x2001, 0x2002, 0x2003, 0x2004, 0x2005, 0x2006, 0x2007, 0x2008, 0x2009, 0x200A,
      0x2028, 0x2029, 0x202F, 0x205F, 0x3000, 0xFEFF])"

definition trim :: "jsstring \<Rightarrow> jsstring" where
  "trim s = rev (dropWhile isWhiteSpace (rev (dropWhile isWhiteSpace s)))"

text \<open>\<open>v || null\<close> on a string: the empty string is falsy and becomes \<open>null\<close>.\<close>

definition or_null :: "jsstring \<Rightarrow> jsstring option" where
  "or_null v = (if v = [] then None else Some v)"

text \<open>
  The values a property read on one of the two tone tables can produce: \<open>undefined\<close>, a
  string of the table, or a member inherited from \<open>Object.prototype\<close> (a built-in function,
  or the prototype object itself for \<open>__proto__\<close>), recorded by the name it was read under.
\<close>

datatype jsval = JSUndefined | JSString jsstring | JSBuiltin jsstring

fun truthy :: "jsval \<Rightarrow> bool" where
  "truthy JSUndefined = False"
| "truthy (JSString s) = (s \<noteq> [])"
| "truthy (JSBuiltin name) = True"

definition js_or :: "jsval \<Rightarrow> jsval \<Rightarrow> jsval" where
  "js_or a b = (if truthy a then a else b)"

text \<open>
  An object literal \<open>{k: v, ...}\<close> has \<open>Object.prototype\<close> as its prototype, and \<open>obj[key]\<close>
  reads an own property first and an inherited one otherwise.
\<close>

definition Object_prototype :: "jsstring list" where
  "Object_prototype = map js [''constructor'', ''__defineGetter__'', ''__defineSetter__'',
     ''hasOwnProperty'', ''__lookupGetter__'', ''__lookupSetter__'', ''isPrototypeOf'',
     ''propertyIsEnumerable'', ''toString'', ''valueOf'', ''__proto__'', ''toLocaleString'']"

definition get_property :: "(jsstring \<times> jsstring) list \<Rightarrow> jsstring \<Rightarrow> jsval" where
  "get_property obj key =
     (case map_of obj key of
        Some v \<Rightarrow> JSString v
      | None \<Rightarrow> if key \<in> set Object_prototype then JSBuiltin key else JSUndefined)"

section \<open>The component state of App.js\<close>

record reply =
  reply_id :: jsstring
  tone :: jsstring
  content :: jsstring
  preview :: jsstring

text \<open>The eight \<open>useState\<close> cells of \<open>App\<close>, with their initial values.\<close>

record app =
  emailContent :: jsstring
  senderName :: jsstring
  senderEmail :: jsstring
  replies :: "reply list"
  selectedReply :: "reply option"
  editedReply :: jsstring
  loading :: bool
  error :: jsstring

definition init :: app where
  "init = \<lparr>emailContent = [], senderName = [], senderEmail = [], replies = [],
           selectedReply = None, editedReply = [], loading = False, error = []\<rparr>"

section \<open>generateReplies\<close>

text \<open>The body posted to \<open>/api/generate-replies\<close>.\<close>

record request =
  email_content :: jsstring
  sender_name :: "jsstring option"
  sender_email :: "jsstring option"

text \<open>
  What \<open>await axios.post(...)\<close> produces: a response whose \<open>data.replies\<close> is installed, or
  a thrown error. The error carries a response when the server answered with a failure
  status and none when no answer arrived; the response body may or may not have a
  \<open>detail\<close> field.
\<close>

datatype body = Body (detail: "jsstring option")
datatype http_response = Response (data: "body option")
datatype axios_error = AxiosError (response: "http_response option")

datatype outcome = Fulfilled "reply list" | Rejected axios_error

text \<open>\<open>err.response?.data?.detail\<close>\<close>

definition error_detail :: "axios_error \<Rightarrow> jsstring option" where
  "error_detail err =
     (case response err of
        None \<Rightarrow> None
      | Some r \<Rightarrow> (case data r of None \<Rightarrow> None | Some b \<Rightarrow> detail b))"

definition fallback_message :: jsstring where
  "fallback_message = js ''Failed to generate replies. Please try again.''"

text \<open>\<open>err.response?.data?.detail || "Failed to generate replies. Please try again."\<close>\<close>

definition error_message :: "axios_error \<Rightarrow> jsstring" where
  "error_message err =
     (case error_detail err of
        None \<Rightarrow> fallback_message
      | Some d \<Rightarrow> if d = [] then fallback_message else d)"

text \<open>
  \<open>generateReplies\<close> up to the \<open>await\<close> (lines 19 to 34): the new state and the request handed
  to axios, if any. \<open>payload\<close> is the object literal of lines 30 to 34.
\<close>

definition payload :: "app \<Rightarrow> request" where
  "payload s = \<lparr>email_content = emailContent s,
                sender_name = or_null (senderName s),
                sender_email = or_null (senderEmail s)\<rparr>"

definition generateReplies_begin :: "app \<Rightarrow> app \<times> request option" where
  "generateReplies_begin s =
     (if trim (emailContent s) = []
      then (s\<lparr>error := js ''Please enter an email to generate replies''\<rparr>, None)
      else (s\<lparr>loading := True, error := [], replies := [], selectedReply := None\<rparr>,
            Some (payload s)))"

text \<open>
  \<open>generateReplies\<close> after the \<open>await\<close> (lines 36 to 42), run on the state of the component
  at the time the promise settles. The \<open>console.error\<close> of the failure branch writes to the
  console only.
\<close>

definition generateReplies_resume :: "outcome \<Rightarrow> app \<Rightarrow> app" where
  "generateReplies_resume out s =
     (case out of
        Fulfilled rs \<Rightarrow> s\<lparr>replies := rs, loading := False\<rparr>
      | Rejected err \<Rightarrow> s\<lparr>error := error_message err, loading := False\<rparr>)"

text \<open>
  One whole call with nothing happening in between; \<open>post\<close> is the network. The second
  component lists the requests that were issued.
\<close>

definition generateReplies :: "(request \<Rightarrow> outcome) \<Rightarrow> app \<Rightarrow> app \<times> request list" where
  "generateReplies post s =
     (case generateReplies_begin s of
        (s', None) \<Rightarrow> (s', [])
      | (s', Some req) \<Rightarrow> (generateReplies_resume (post req) s', [req]))"

section \<open>Selection and the editor\<close>

definition selectReply :: "reply \<Rightarrow> app \<Rightarrow> app" where
  "selectReply r s = s\<lparr>selectedReply := Some r, editedReply := content r\<rparr>"

text \<open>The editor panel is rendered exactly when \<open>selectedReply\<close> is not \<open>null\<close> (line 206).\<close>

definition editor_open :: "app \<Rightarrow> bool" where
  "editor_open s = (selectedReply s \<noteq> None)"

text \<open>The \<open>onChange\<close> of the editor's textarea (line 222).\<close>

definition edit :: "jsstring \<Rightarrow> app \<Rightarrow> app" where
  "edit v s = s\<lparr>editedReply := v\<rparr>"

text \<open>
  The handler of "Reset to Original" (line 235). Reading \<open>.content\<close> of \<open>null\<close> throws a
  TypeError.
\<close>

datatype js_error = TypeError

definition reset :: "app \<Rightarrow> js_error + app" where
  "reset s =
     (case selectedReply s of
        None \<Rightarrow> Inl TypeError
      | Some r \<Rightarrow> Inr (s\<lparr>editedReply := content r\<rparr>))"

text \<open>The handler of the close button of the editor (line 213).\<close>

definition close_editor :: "app \<Rightarrow> app" where
  "close_editor s = s\<lparr>selectedReply := None\<rparr>"

section \<open>copyToClipboard\<close>

text \<open>
  What the platform does with \<open>navigator.clipboard.writeText\<close>: there is no
  \<open>navigator.clipboard\<close> at all (the property read throws), or the returned promise is
  rejected, or it is fulfilled. The function does not await the promise and then calls
  \<open>alert\<close>. Its effects are the text that reached the clipboard and the alerts shown.
\<close>

datatype clipboard = NoClipboard | WriteRejected | WriteFulfilled

record copy_effects =
  clipboard_text :: "jsstring option"
  alerts :: "jsstring list"

definition copyToClipboard :: "clipboard \<Rightarrow> jsstring \<Rightarrow> (js_error + unit) \<times> copy_effects" where
  "copyToClipboard platform text =
     (case platform of
        NoClipboard \<Rightarrow> (Inl TypeError, \<lparr>clipboard_text = None, alerts = []\<rparr>)
      | WriteRejected \<Rightarrow>
          (Inr (), \<lparr>clipboard_text = None, alerts = [js ''Reply copied to clipboard!'']\<rparr>)
      | WriteFulfilled \<Rightarrow>
          (Inr (), \<lparr>clipboard_text = Some text, alerts = [js ''Reply copied to clipboard!'']\<rparr>))"

section \<open>Tone presentation\<close>

text \<open>
  The icons are U+1F454, U+1F60A, U+26A1, U+1F4DD and, for the default, U+1F4E7, as
  UTF-16.
\<close>

definition icons :: "(jsstring \<times> jsstring) list" where
  "icons = [(js ''professional'', [0xD83D, 0xDC54]),
            (js ''friendly'', [0xD83D, 0xDE0A]),
            (js ''brief'', [0x26A1]),
            (js ''detailed'', [0xD83D, 0xDCDD])]"

definition default_icon :: jsstring where
  "default_icon = [0xD83D, 0xDCE7]"

definition getToneIcon :: "jsstring \<Rightarrow> jsval" where
  "getToneIcon t = js_or (get_property icons t) (JSString default_icon)"

definition colors :: "(jsstring \<times> jsstring) list" where
  "colors = [(js ''professional'', js ''bg-blue-50 border-blue-200''),
             (js ''friendly'', js ''bg-green-50 border-green-200''),
             (js ''brief'', js ''bg-yellow-50 border-yellow-200''),
             (js ''detailed'', js ''bg-purple-50 border-purple-200'')]"

definition default_color :: jsstring where
  "default_color = js ''bg-gray-50 border-gray-200''"

definition getToneColor :: "jsstring \<Rightarrow> jsval" where
  "getToneColor t = js_or (get_property colors t) (JSString default_color)"

section \<open>The page as an event-driven machine\<close>

text \<open>
  The state cells of the component, the state the page was last rendered with, and the
  requests axios has not yet answered. A render evaluates \<open>App\<close> with the cells as they
  are; the markup it returns and the handlers it creates keep the values of that render
  until the next one. So an event is available where the last render put its element and
  left it enabled: the generate button is disabled when that render had \<open>loading\<close> set
  (line 145), the reply cards exist for the replies of that render (line 169), and the
  editor with its buttons exists when that render had a reply selected (line 206). A
  handler reads the values of its render and writes the cells through the setters.
  Nothing in \<open>generateReplies\<close> itself reads \<open>loading\<close>. The two copy buttons call
  \<open>copyToClipboard\<close>, which reads and writes none of the cells.
\<close>

record world =
  ui :: app
  shown :: app
  pending :: "request list"

definition start :: world where
  "start = \<lparr>ui = init, shown = init, pending = []\<rparr>"

datatype event =
    ChangeEmailContent jsstring
  | ChangeSenderName jsstring
  | ChangeSenderEmail jsstring
  | ClickGenerate
  | ClickReply nat
  | ClickCopy nat
  | ClickClose
  | ChangeEditedReply jsstring
  | ClickCopyFinal
  | ClickReset
  | Settle nat outcome
  | Render

fun is_settle :: "event \<Rightarrow> bool" where
  "is_settle (Settle n out) = True"
| "is_settle e = False"

text \<open>
  \<open>generateReplies\<close> up to the \<open>await\<close>, as created by the render of the state \<open>c\<close> and called
  when the cells hold \<open>s\<close>: \<open>emailContent\<close>, \<open>senderName\<close> and \<open>senderEmail\<close> are the constants of
  that render, the setters overwrite the cells.
\<close>

definition generateReplies_begin_closure :: "app \<Rightarrow> app \<Rightarrow> app \<times> request option" where
  "generateReplies_begin_closure c s =
     (if trim (emailContent c) = []
      then (s\<lparr>error := js ''Please enter an email to generate replies''\<rparr>, None)
      else (s\<lparr>loading := True, error := [], replies := [], selectedReply := None\<rparr>,
            Some (payload c)))"

text \<open>
  The handler of "Reset to Original" as created by the render of \<open>c\<close>: \<open>selectedReply\<close> is the
  constant of that render.
\<close>

definition reset_closure :: "app \<Rightarrow> app \<Rightarrow> js_error + app" where
  "reset_closure c s =
     (case selectedReply c of
        None \<Rightarrow> Inl TypeError
      | Some r \<Rightarrow> Inr (s\<lparr>editedReply := content r\<rparr>))"

fun step :: "world \<Rightarrow> event \<Rightarrow> world" where
  "step w (ChangeEmailContent v) = w\<lparr>ui := (ui w)\<lparr>emailContent := v\<rparr>\<rparr>"
| "step w (ChangeSenderName v) = w\<lparr>ui := (ui w)\<lparr>senderName := v\<rparr>\<rparr>"
| "step w (ChangeSenderEmail v) = w\<lparr>ui := (ui w)\<lparr>senderEmail := v\<rparr>\<rparr>"
| "step w ClickGenerate =
     (if loading (shown w) then w
      else (case generateReplies_begin_closure (shown w) (ui w) of
              (s', None) \<Rightarrow> w\<lparr>ui := s'\<rparr>
            | (s', Some req) \<Rightarrow> w\<lparr>ui := s', pending := pending w @ [req]\<rparr>))"
| "step w (ClickReply i) =
     (if i < length (replies (shown w))
      then w\<lparr>ui := selectReply (replies (shown w) ! i) (ui w)\<rparr> else w)"
| "step w (ClickCopy i) = w"
| "step w ClickClose =
     (if editor_open (shown w) then w\<lparr>ui := close_editor (ui w)\<rparr> else w)"
| "step w (ChangeEditedReply v) =
     (if editor_open (shown w) then w\<lparr>ui := edit v (ui w)\<rparr> else w)"
| "step w ClickCopyFinal = w"
| "step w ClickReset =
     (if editor_open (shown w)
      then (case reset_closure (shown w) (ui w) of Inl e \<Rightarrow> w | Inr s' \<Rightarrow> w\<lparr>ui := s'\<rparr>)
      else w)"
| "step w (Settle n out) =
     (if n < length (pending w)
      then w\<lparr>ui := generateReplies_resume out (ui w),
             pending := take n (pending w) @ drop (Suc n) (pending w)\<rparr>
      else w)"
| "step w Render = w\<lparr>shown := ui w\<rparr>"

definition run :: "event list \<Rightarrow> world \<Rightarrow> world" where
  "run evs w = foldl step w evs"

text \<open>
  An execution in which every click on the generate button meets a button that is up to
  date: the render it belongs to had the value of \<open>loading\<close> that the cell holds at the
  click.
\<close>

fun button_current :: "world \<Rightarrow> event list \<Rightarrow> bool" where
  "button_current w [] = True"
| "button_current w (ClickGenerate # es) =
     (loading (shown w) = loading (ui w) \<and> button_current (step w ClickGenerate) es)"
| "button_current w (e # es) = button_current (step w e) es"

text \<open>
  An execution in which a render comes directly before every click on the generate
  button; \<open>fresh\<close> says that the event before was a render.
\<close>

fun render_before_click :: "bool \<Rightarrow> event list \<Rightarrow> bool" where
  "render_before_click fresh [] = True"
| "render_before_click fresh (ClickGenerate # es) = (fresh \<and> render_before_click False es)"
| "render_before_click fresh (Render # es) = render_before_click True es"
| "render_before_click fresh (e # es) = render_before_click False es"

text \<open>
  At most one request is outstanding, and one is outstanding exactly when \<open>loading\<close> is
  set.
\<close>

definition tidy :: "world \<Rightarrow> bool" where
  "tidy w = (length (pending w) \<le> 1 \<and> loading (ui w) = (pending w \<noteq> []))"

section \<open>Example data\<close>

text \<open>The replies and the failure of the scenarios in the specification.\<close>

definition reply_1 :: reply where
  "reply_1 = \<lparr>reply_id = js ''1'', tone = js ''professional'',
              content = js ''Dear...'', preview = js ''Dear...''\<rparr>"

definition reply_2 :: reply where
  "reply_2 = \<lparr>reply_id = js ''2'', tone = js ''friendly'',
              content = js ''Hey...'', preview = js ''Hey...''\<rparr>"

definition rate_limited :: axios_error where
  "rate_limited = AxiosError (Some (Response (Some (Body (Some (js ''rate limited''))))))"

text \<open>A failure whose response body has the empty string as \<open>detail\<close>.\<close>

definition empty_detail :: axios_error where
  "empty_detail = AxiosError (Some (Response (Some (Body (Some [])))))"

text \<open>A state with the two replies on display, the second one open in the editor.\<close>

definition showing :: app where
  "showing = init\<lparr>emailContent := js ''Hi, can we reschedule?'',
                  replies := [reply_1, reply_2],
                  selectedReply := Some reply_2,
                  editedReply := js ''Hey there''\<rparr>"

text \<open>The world after one submission that the server answered with the two replies.\<close>

definition answered :: world where
  "answered = run [ChangeEmailContent (js ''Hi, can we reschedule?''), Render, ClickGenerate,
                   Settle 0 (Fulfilled [reply_1, reply_2])] start"

text \<open>The events up to the first click on the generate button, on a rendered page.\<close>

definition first_click :: "event list" where
  "first_click = [ChangeEmailContent (js ''Hi, can we reschedule?''), Render, ClickGenerate]"

text \<open>The same, with the page rendered again while the request is outstanding.\<close>

definition waiting :: "event list" where
  "waiting = first_click @ [Render]"

section \<open>Blank input\<close>

lemma trim_whitespace_only: "list_all isWhiteSpace s \<Longrightarrow> trim s = []"
  by (auto simp: trim_def list_all_iff dest: set_dropWhileD)

text \<open>
  C1. When the email content is empty after trimming, \<open>generateReplies\<close> issues no request
  and only sets the validation message \<open>Please enter an email to generate replies\<close>,
  whatever the network would answer and whatever the other fields of the state hold,
  the sender name and address among them.
\<close>

theorem blank_content_no_request:
  assumes "trim (emailContent s) = []"
  shows "generateReplies post s =
           (s\<lparr>error := js ''Please enter an email to generate replies''\<rparr>, [])"
  using assms by (simp add: generateReplies_def generateReplies_begin_def)

theorem blank_content_no_request_witness:
  "trim (emailContent (init\<lparr>emailContent := js ''   '', senderName := js ''Ann''\<rparr>)) = []
   \<and> snd (generateReplies (\<lambda>req. Fulfilled [])
            (init\<lparr>emailContent := js ''   '', senderName := js ''Ann''\<rparr>)) = []
   \<and> error (fst (generateReplies (\<lambda>req. Fulfilled [])
            (init\<lparr>emailContent := js ''   '', senderName := js ''Ann''\<rparr>)))
       = js ''Please enter an email to generate replies''"
proof -
  have blank: "trim (emailContent (init\<lparr>emailContent := js ''   '', senderName := js ''Ann''\<rparr>)) = []"
    by (simp add: trim_def js_def isWhiteSpace_def)
  show ?thesis
    using blank blank_content_no_request [OF blank, of "\<lambda>req. Fulfilled []"] by simp
qed

section \<open>Installing a successful response\<close>

text \<open>
  C4. A call of \<open>generateReplies\<close> with non-blank content whose request the server answers
  with the list \<open>rs\<close> ends with exactly \<open>rs\<close> as the collection, so with \<open>length rs\<close>
  replies, and with no reply selected, whatever collection and selection the state held
  before the call.
\<close>

theorem successful_response_installed:
  assumes "trim (emailContent s) \<noteq> []" and "post (payload s) = Fulfilled rs"
  shows "replies (fst (generateReplies post s)) = rs
       \<and> length (replies (fst (generateReplies post s))) = length rs
       \<and> selectedReply (fst (generateReplies post s)) = None"
  using assms
  by (simp add: generateReplies_def generateReplies_begin_def generateReplies_resume_def)

theorem successful_response_installed_witness:
  "trim (emailContent showing) \<noteq> []
   \<and> selectedReply showing = Some reply_2
   \<and> replies (fst (generateReplies (\<lambda>req. Fulfilled [reply_1]) showing)) = [reply_1]
   \<and> length (replies (fst (generateReplies (\<lambda>req. Fulfilled [reply_1]) showing))) = 1
   \<and> selectedReply (fst (generateReplies (\<lambda>req. Fulfilled [reply_1]) showing)) = None"
proof -
  have nonblank: "trim (emailContent showing) \<noteq> []"
    by (simp add: showing_def trim_def js_def isWhiteSpace_def)
  have answer: "(\<lambda>req. Fulfilled [reply_1]) (payload showing) = Fulfilled [reply_1]"
    by simp
  have sel: "selectedReply showing = Some reply_2"
    by (simp add: showing_def)
  show ?thesis
    using nonblank sel successful_response_installed [OF nonblank answer] by simp
qed

section \<open>Selecting, editing and resetting\<close>

lemma foldl_edit_frame:
  "selectedReply (foldl (\<lambda>s v. edit v s) s vs) = selectedReply s
   \<and> replies (foldl (\<lambda>s v. edit v s) s vs) = replies s"
  by (induction vs arbitrary: s) (simp_all add: edit_def)

text \<open>
  C5. \<open>selectReply r\<close> opens the editor on \<open>r\<close> with the edit buffer equal to the content
  of \<open>r\<close>, from every state: whatever was selected and whatever the buffer held. In
  particular this holds for every reply of the current collection, and selecting the same
  reply again after an edit puts its content back into the buffer.
\<close>

theorem select_opens_editor_on_content:
  "selectedReply (selectReply r s) = Some r
   \<and> editor_open (selectReply r s)
   \<and> editedReply (selectReply r s) = content r
   \<and> editedReply (selectReply r (edit v (selectReply r s))) = content r"
  by (simp add: selectReply_def editor_open_def edit_def)

lemma click_reply_opens_editor:
  assumes "i < length (replies (shown w))"
  shows "selectedReply (ui (step w (ClickReply i))) = Some (replies (shown w) ! i)
       \<and> editedReply (ui (step w (ClickReply i))) = content (replies (shown w) ! i)"
  using assms by (simp add: selectReply_def)

text \<open>
  C6. After \<open>selectReply r\<close> and any list \<open>vs\<close> of edits, the empty string among them or not,
  \<open>reset\<close> succeeds and changes nothing but the edit buffer, which becomes the content of
  \<open>r\<close>. The original is the content of the selected reply: neither the selected reply nor
  the collection is changed by the edits or by the reset.
\<close>

theorem reset_restores_original:
  "reset (foldl (\<lambda>s v. edit v s) (selectReply r s) vs)
     = Inr ((foldl (\<lambda>s v. edit v s) (selectReply r s) vs)\<lparr>editedReply := content r\<rparr>)
   \<and> selectedReply (foldl (\<lambda>s v. edit v s) (selectReply r s) vs) = Some r
   \<and> replies (foldl (\<lambda>s v. edit v s) (selectReply r s) vs) = replies s"
proof -
  let ?s = "foldl (\<lambda>s v. edit v s) (selectReply r s) vs"
  have sel: "selectedReply ?s = Some r"
    using foldl_edit_frame [of "selectReply r s" vs] by (simp add: selectReply_def)
  have reps: "replies ?s = replies s"
    using foldl_edit_frame [of "selectReply r s" vs] by (simp add: selectReply_def)
  from sel have "reset ?s = Inr (?s\<lparr>editedReply := content r\<rparr>)"
    by (simp add: reset_def)
  with sel reps show ?thesis by simp
qed

section \<open>Failed requests\<close>

text \<open>
  C10. With non-blank content, \<open>generateReplies\<close> has cleared the selection, and so closed
  the editor, when it hands the request to axios; after a call whose request fails no
  reply is selected and the editor is closed.
\<close>

theorem submit_clears_selection:
  assumes "trim (emailContent s) \<noteq> []"
  shows "selectedReply (fst (generateReplies_begin s)) = None
       \<and> \<not> editor_open (fst (generateReplies_begin s))
       \<and> snd (generateReplies_begin s) = Some (payload s)
       \<and> selectedReply (fst (generateReplies (\<lambda>req. Rejected err) s)) = None
       \<and> \<not> editor_open (fst (generateReplies (\<lambda>req. Rejected err) s))"
  using assms
  by (simp add: generateReplies_def generateReplies_begin_def generateReplies_resume_def
      editor_open_def)

theorem submit_clears_selection_witness:
  "trim (emailContent showing) \<noteq> []
   \<and> editor_open showing
   \<and> \<not> editor_open (fst (generateReplies_begin showing))
   \<and> \<not> editor_open (fst (generateReplies (\<lambda>req. Rejected rate_limited) showing))"
proof -
  have nonblank: "trim (emailContent showing) \<noteq> []"
    by (simp add: showing_def trim_def js_def isWhiteSpace_def)
  have opened: "editor_open showing"
    by (simp add: showing_def editor_open_def)
  show ?thesis
    using nonblank opened submit_clears_selection [OF nonblank, of rate_limited] by simp
qed

text \<open>
  C2, as the code has it. A call with non-blank content whose request fails leaves the
  collection empty, whatever it was before, since the collection is cleared when the
  request is issued; the collection is the one from before the call only if that was
  empty. The form fields and the edit buffer are unchanged, and the error message is
  the one of the failure.
\<close>

theorem failed_submit_frame:
  assumes "trim (emailContent s) \<noteq> []" and "post (payload s) = Rejected err"
  shows "replies (fst (generateReplies post s)) = []
       \<and> error (fst (generateReplies post s)) = error_message err
       \<and> emailContent (fst (generateReplies post s)) = emailContent s
       \<and> senderName (fst (generateReplies post s)) = senderName s
       \<and> senderEmail (fst (generateReplies post s)) = senderEmail s
       \<and> editedReply (fst (generateReplies post s)) = editedReply s"
  using assms
  by (simp add: generateReplies_def generateReplies_begin_def generateReplies_resume_def)

theorem failed_submit_frame_witness:
  "trim (emailContent showing) \<noteq> []
   \<and> replies (fst (generateReplies (\<lambda>req. Rejected rate_limited) showing)) = []
   \<and> error (fst (generateReplies (\<lambda>req. Rejected rate_limited) showing)) = js ''rate limited''
   \<and> emailContent (fst (generateReplies (\<lambda>req. Rejected rate_limited) showing))
       = js ''Hi, can we reschedule?''"
proof -
  have nonblank: "trim (emailContent showing) \<noteq> []"
    by (simp add: showing_def trim_def js_def isWhiteSpace_def)
  have answer: "(\<lambda>req. Rejected rate_limited) (payload showing) = Rejected rate_limited"
    by simp
  have msg: "error_message rate_limited = js ''rate limited''"
    by (simp add: error_message_def error_detail_def rate_limited_def js_def)
  have content: "emailContent showing = js ''Hi, can we reschedule?''"
    by (simp add: showing_def)
  show ?thesis
    using nonblank msg content failed_submit_frame [OF nonblank answer] by simp
qed

text \<open>
  The scenario of the specification, from the initial page: the first submission is
  answered with two replies, the second one with the failure \<open>rate limited\<close>. Before the
  second call the collection holds the two replies; after it the collection is empty.
\<close>

theorem failed_submit_discards_replies:
  "replies (ui answered) = [reply_1, reply_2]
   \<and> trim (emailContent (ui answered)) \<noteq> []
   \<and> error (fst (generateReplies (\<lambda>req. Rejected rate_limited) (ui answered)))
       = js ''rate limited''
   \<and> replies (fst (generateReplies (\<lambda>req. Rejected rate_limited) (ui answered))) = []
   \<and> replies (fst (generateReplies (\<lambda>req. Rejected rate_limited) (ui answered)))
       \<noteq> replies (ui answered)"
  by (simp add: answered_def run_def start_def init_def generateReplies_def
      generateReplies_begin_def generateReplies_begin_closure_def
      generateReplies_resume_def payload_def or_null_def
      error_message_def error_detail_def rate_limited_def trim_def js_def isWhiteSpace_def)

text \<open>
  C7, as the code has it. The message set by a failed request is the \<open>detail\<close> field of the
  response body when the field is present and not the empty string, and the fixed
  message \<open>Failed to generate replies. Please try again.\<close> in every other case: an empty
  \<open>detail\<close>, a body without \<open>detail\<close>, a response without a body, no response at all.
\<close>

theorem error_message_of_failure:
  "error (generateReplies_resume
       (Rejected (AxiosError (Some (Response (Some (Body (Some d))))))) s)
     = (if d = [] then fallback_message else d)
   \<and> error (generateReplies_resume
       (Rejected (AxiosError (Some (Response (Some (Body None)))))) s) = fallback_message
   \<and> error (generateReplies_resume
       (Rejected (AxiosError (Some (Response None)))) s) = fallback_message
   \<and> error (generateReplies_resume (Rejected (AxiosError None)) s) = fallback_message"
  by (simp add: generateReplies_resume_def error_message_def error_detail_def)

text \<open>
  A response body whose \<open>detail\<close> is present and is the empty string: the message is the
  fixed one, not the field.
\<close>

theorem empty_detail_counterexample:
  "error_detail empty_detail = Some []
   \<and> error (generateReplies_resume (Rejected empty_detail) init)
       = js ''Failed to generate replies. Please try again.''
   \<and> error (generateReplies_resume (Rejected empty_detail) init) \<noteq> []"
  by (simp add: generateReplies_resume_def error_message_def error_detail_def
      empty_detail_def fallback_message_def js_def)

section \<open>One request at a time\<close>

text \<open>
  On a page that has just been rendered the handlers are the functions of the sections
  above.
\<close>

lemma closure_of_current_render:
  "generateReplies_begin_closure s s = generateReplies_begin s"
  "reset_closure s s = reset s"
  by (simp_all add: generateReplies_begin_closure_def generateReplies_begin_def
      reset_closure_def reset_def)

lemma tidy_start: "tidy start"
  by (simp add: tidy_def start_def init_def)

lemma tidy_step:
  assumes "tidy w" and "e = ClickGenerate \<Longrightarrow> loading (shown w) = loading (ui w)"
  shows "tidy (step w e)"
proof (cases e)
  case ClickGenerate
  with assms show ?thesis
    by (auto simp: tidy_def generateReplies_begin_closure_def)
next
  case (Settle n out)
  with assms show ?thesis
    by (cases out) (auto simp: tidy_def generateReplies_resume_def)
next
  case ClickReset
  with assms show ?thesis
    by (auto simp: tidy_def reset_closure_def split: option.splits)
qed (use assms in \<open>auto simp: tidy_def selectReply_def close_editor_def edit_def\<close>)

lemma tidy_foldl: "tidy w \<Longrightarrow> button_current w evs \<Longrightarrow> tidy (foldl step w evs)"
proof (induction evs arbitrary: w)
  case Nil
  then show ?case by simp
next
  case (Cons e es)
  have current: "e = ClickGenerate \<Longrightarrow> loading (shown w) = loading (ui w)"
    using Cons.prems(2) by simp
  have rest: "button_current (step w e) es"
    using Cons.prems(2) by (cases e) (simp_all del: step.simps)
  have "tidy (step w e)"
    using Cons.prems(1) current by (rule tidy_step)
  then have "tidy (foldl step (step w e) es)"
    using rest by (rule Cons.IH)
  then show ?case by simp
qed

text \<open>
  A render directly before every click on the generate button is enough for the button
  to be up to date at every click.
\<close>

lemma render_before_click_current:
  assumes "fresh \<Longrightarrow> loading (shown w) = loading (ui w)"
    and "render_before_click fresh evs"
  shows "button_current w evs"
  using assms
proof (induction evs arbitrary: w fresh)
  case Nil
  then show ?case by simp
next
  case (Cons e es)
  show ?case
  proof (cases e)
    case ClickGenerate
    with Cons.prems have now: "loading (shown w) = loading (ui w)"
      and rest: "render_before_click False es"
      by simp_all
    have "button_current (step w ClickGenerate) es"
      using rest by (rule Cons.IH [rotated]) simp
    with now ClickGenerate show ?thesis by simp
  next
    case Render
    with Cons.prems have rest: "render_before_click True es"
      by simp
    have "button_current (step w Render) es"
      using rest by (rule Cons.IH [rotated]) simp
    with Render show ?thesis by simp
  next
    case (Settle n out)
    with Cons.prems have rest: "render_before_click False es"
      by simp
    have "button_current (step w (Settle n out)) es"
      using rest by (rule Cons.IH [rotated]) simp
    with Settle show ?thesis by simp
  qed (use Cons.prems Cons.IH [of False] in \<open>simp_all\<close>)
qed

text \<open>
  C3, as the code has it. \<open>generateReplies\<close> has no guard of its own; the guard is the
  \<open>disabled\<close> attribute that a render gives the generate button. In every execution from the
  initial page in which each click on the generate button meets a button rendered with
  the current value of \<open>loading\<close>, at most one request is outstanding, and one is
  outstanding exactly when \<open>loading\<close> is set. While \<open>loading\<close> is set there, a click on the
  button of a render that had \<open>loading\<close> set does nothing, no event other than the settling
  of the request clears \<open>loading\<close>, no event other than that settling or a click on the
  generate button changes the outstanding requests, and the settling of the request,
  fulfilled or rejected, clears \<open>loading\<close> and leaves nothing outstanding.
\<close>

theorem one_request_in_flight:
  assumes "button_current start evs"
  shows "length (pending (run evs start)) \<le> 1
   \<and> loading (ui (run evs start)) = (pending (run evs start) \<noteq> [])
   \<and> (loading (ui (run evs start)) \<longrightarrow>
        (loading (shown (run evs start)) \<longrightarrow>
           step (run evs start) ClickGenerate = run evs start)
      \<and> (\<not> is_settle e \<longrightarrow> loading (ui (step (run evs start) e)))
      \<and> (\<not> is_settle e \<and> e \<noteq> ClickGenerate \<longrightarrow>
            pending (step (run evs start) e) = pending (run evs start))
      \<and> \<not> loading (ui (step (run evs start) (Settle 0 out)))
      \<and> pending (step (run evs start) (Settle 0 out)) = [])"
proof -
  let ?w = "run evs start"
  have t: "tidy ?w"
    using tidy_start assms unfolding run_def by (rule tidy_foldl)
  have a: "length (pending ?w) \<le> 1"
    using t by (simp add: tidy_def)
  have b: "loading (ui ?w) = (pending ?w \<noteq> [])"
    using t by (simp add: tidy_def)
  have c: "step ?w ClickGenerate = ?w" if "loading (shown ?w)"
    using that by simp
  have d: "loading (ui (step ?w e))"
    if "loading (ui ?w)" "\<not> is_settle e"
    using that
    by (cases e) (auto simp: generateReplies_begin_closure_def selectReply_def
        close_editor_def edit_def reset_closure_def split: option.splits)
  have d': "pending (step ?w e) = pending ?w"
    if "\<not> is_settle e" "e \<noteq> ClickGenerate"
    using that
    by (cases e) (auto simp: reset_closure_def split: option.splits)
  have e: "\<not> loading (ui (step ?w (Settle 0 out))) \<and> pending (step ?w (Settle 0 out)) = []"
    if "loading (ui ?w)"
  proof -
    from that b a have "length (pending ?w) = 1"
      by (cases "pending ?w") simp_all
    then show ?thesis
      by (cases out) (simp_all add: generateReplies_resume_def)
  qed
  show ?thesis using a b c d d' e by blast
qed

theorem one_request_in_flight_witness:
  "button_current start waiting
   \<and> loading (ui (run waiting start))
   \<and> loading (shown (run waiting start))
   \<and> \<not> is_settle (ChangeSenderName (js ''Ann''))
   \<and> ChangeSenderName (js ''Ann'') \<noteq> ClickGenerate
   \<and> length (pending (run waiting start)) \<le> 1
   \<and> step (run waiting start) ClickGenerate = run waiting start
   \<and> loading (ui (step (run waiting start) (ChangeSenderName (js ''Ann''))))
   \<and> pending (step (run waiting start) (ChangeSenderName (js ''Ann'')))
       = pending (run waiting start)
   \<and> \<not> loading (ui (step (run waiting start) (Settle 0 (Rejected rate_limited))))"
proof -
  have current: "button_current start waiting"
    by (simp add: waiting_def first_click_def start_def init_def)
  have busy: "loading (ui (run waiting start)) \<and> loading (shown (run waiting start))"
    by (simp add: waiting_def first_click_def run_def start_def init_def
        generateReplies_begin_closure_def trim_def js_def isWhiteSpace_def)
  have other: "\<not> is_settle (ChangeSenderName (js ''Ann''))
      \<and> ChangeSenderName (js ''Ann'') \<noteq> ClickGenerate"
    by simp
  show ?thesis
    using current busy other
      one_request_in_flight [OF current, of "ChangeSenderName (js ''Ann'')"
        "Rejected rate_limited"]
    by blast
qed

text \<open>
  Two clicks on the generate button with no render between them: after the first one
  \<open>loading\<close> is set and one request is outstanding, and the second one, on the button of
  the render from before the first, sends a second request.
\<close>

theorem second_click_before_render:
  "loading (ui (run first_click start))
   \<and> length (pending (run first_click start)) = 1
   \<and> length (pending (run (first_click @ [ClickGenerate]) start)) = 2
   \<and> \<not> length (pending (run (first_click @ [ClickGenerate]) start)) \<le> 1"
  by (simp add: first_click_def run_def start_def init_def generateReplies_begin_closure_def
      trim_def js_def isWhiteSpace_def)

section \<open>Tone lookups\<close>

text \<open>
  C8, at the tone \<open>constructor\<close>: both lookups read the member that the table inherits from
  \<open>Object.prototype\<close>, which is truthy, and so return it instead of the default icon and
  the neutral style class.
\<close>

theorem tone_lookup_reads_prototype:
  "getToneIcon (js ''constructor'') = JSBuiltin (js ''constructor'')
   \<and> getToneIcon (js ''constructor'') \<noteq> JSString default_icon
   \<and> getToneColor (js ''constructor'') = JSBuiltin (js ''constructor'')
   \<and> getToneColor (js ''constructor'') \<noteq> JSString default_color"
  by (simp add: getToneIcon_def getToneColor_def get_property_def js_or_def icons_def
      colors_def Object_prototype_def js_def)

text \<open>
  For every tone that is not the name of a member of \<open>Object.prototype\<close> the lookups
  return a string: the entry of the table for the four known tones, the default
  otherwise.
\<close>

lemma tone_lookup_outside_prototype:
  assumes "t \<notin> set Object_prototype"
  shows "getToneIcon t = JSString (case map_of icons t of Some v \<Rightarrow> v | None \<Rightarrow> default_icon)"
    and "getToneColor t
           = JSString (case map_of colors t of Some v \<Rightarrow> v | None \<Rightarrow> default_color)"
  using assms
  by (auto simp add: getToneIcon_def getToneColor_def get_property_def js_or_def icons_def
      colors_def js_def split: option.splits if_splits)

section \<open>Copying\<close>

text \<open>
  C9, when the platform rejects the write: nothing reaches the clipboard, and the caller
  sees what it sees after a successful write, a normal return and the alert
  \<open>Reply copied to clipboard!\<close>.
\<close>

theorem copy_failure_not_observable:
  "copyToClipboard WriteRejected (js ''Hey...'')
     = (Inr (), \<lparr>clipboard_text = None, alerts = [js ''Reply copied to clipboard!'']\<rparr>)
   \<and> fst (copyToClipboard WriteRejected (js ''Hey...''))
     = fst (copyToClipboard WriteFulfilled (js ''Hey...''))
   \<and> alerts (snd (copyToClipboard WriteRejected (js ''Hey...'')))
     = alerts (snd (copyToClipboard WriteFulfilled (js ''Hey...'')))"
  by (simp add: copyToClipboard_def)

end
